theory Spec2Isabelle
  imports Main
begin

section \<open>The reference polyfill of init-only classes\<close>

text \<open>
  The development embeds the polyfill of \<^verbatim>\<open>Explainer.md\<close> (\<^verbatim>\<open>isThenable\<close>,
  \<^verbatim>\<open>markInitOnly\<close>, \<^verbatim>\<open>init\<close>, \<^verbatim>\<open>guardNewForInitOnly\<close>) together with the part of
  the JavaScript realm these four functions touch: function objects with their static
  properties and prototype, heap objects with identity, promises with their reactions,
  and thrown values.

  What the polyfill calls user code (a class's constructor, its \<^verbatim>\<open>initializer\<close>) is a
  HOL function stored with the function object. User code reads the heap and its
  arguments and writes the own properties of \<^verbatim>\<open>this\<close>; it does not write the static
  properties that the polyfill keeps on the class, it does not call \<^verbatim>\<open>init\<close> or
  \<^verbatim>\<open>markInitOnly\<close> itself, and a constructor does not return an object in place of
  \<^verbatim>\<open>this\<close>. A class has no static property named \<^verbatim>\<open>instance\<close> but the accessor
  that \<^verbatim>\<open>markInitOnly\<close> defines. Numbers are integers.

  A class may extend another class. The constructor of the derived class then has the
  constructor of the base class as its prototype, and the prototype object of the
  derived class has the prototype object of the base class as its prototype: a read of
  a static property, and a read of a method on an instance, go up this chain until an
  own property is found. A write creates or changes an own property of the constructor
  it is made on.

  The polyfill and the engine raise one kind of error, \<^verbatim>\<open>TypeError\<close>; the message tells
  which check failed. What the proposal calls a promise settling later is an event of
  the realm: \<^verbatim>\<open>init\<close> returns before the callback it gave to \<^verbatim>\<open>.then\<close> runs, and the
  callback runs in a later turn of the job queue.
\<close>

subsection \<open>Values\<close>

type_synonym addr = nat

text \<open>
  A function value is a function object, named by its address, or the \<^verbatim>\<open>Proxy\<close> that
  \<^verbatim>\<open>guardNewForInitOnly\<close> wraps around a function value. That proxy has a
  \<^verbatim>\<open>construct\<close> trap only, so every property read or write on it reaches the wrapped
  function object.
\<close>

datatype fn = Fn addr | Proxy fn

datatype val =
    Undefined
  | Null
  | BoolV bool
  | NumV int
  | StrV string
  | TypeErrorV string   \<comment> \<open>the object made by \<^verbatim>\<open>new TypeError(message)\<close>\<close>
  | ObjV addr           \<comment> \<open>an ordinary object\<close>
  | PromV addr          \<comment> \<open>a native promise\<close>
  | FunV fn

type_synonym props = "string \<rightharpoonup> val"

text \<open>A call either returns or throws a value: \<open>Inl v\<close> is \<^verbatim>\<open>throw v\<close>.\<close>

type_synonym 'a result = "val + 'a"

fun truthy :: "val \<Rightarrow> bool" where
  "truthy Undefined = False"
| "truthy Null = False"
| "truthy (BoolV b) = b"
| "truthy (NumV n) = (n \<noteq> 0)"
| "truthy (StrV s) = (s \<noteq> [])"
| "truthy (TypeErrorV m) = True"
| "truthy (ObjV a) = True"
| "truthy (PromV p) = True"
| "truthy (FunV f) = True"

fun typeof :: "val \<Rightarrow> string" where
  "typeof Undefined = ''undefined''"
| "typeof Null = ''object''"
| "typeof (BoolV b) = ''boolean''"
| "typeof (NumV n) = ''number''"
| "typeof (StrV s) = ''string''"
| "typeof (TypeErrorV m) = ''object''"
| "typeof (ObjV a) = ''object''"
| "typeof (PromV p) = ''object''"
| "typeof (FunV f) = ''function''"

subsection \<open>Objects, user code and function objects\<close>

text \<open>
  An object has own properties and the prototype it was allocated with: the
  \<^verbatim>\<open>prototype\<close> of the function object at \<open>protoOf\<close>, or \<^verbatim>\<open>Object.prototype\<close>.
\<close>

record obj =
  protoOf :: "addr option"
  own :: props

text \<open>
  The body of a function called with \<^verbatim>\<open>this\<close> bound to an object: it sees the heap and
  the arguments, and the own properties of \<^verbatim>\<open>this\<close>. It returns a value, throws, or, as
  an \<^verbatim>\<open>async\<close> function, returns a new promise and leaves the rest of its body
  suspended: the rest later updates \<^verbatim>\<open>this\<close> and fulfils (\<open>Inr\<close>) or rejects (\<open>Inl\<close>)
  that promise.
\<close>

datatype outcome =
    Return props val
  | Throw val
  | Await props "props \<Rightarrow> props \<times> (val + val)"

type_synonym body = "(addr \<rightharpoonup> obj) \<Rightarrow> val list \<Rightarrow> props \<Rightarrow> outcome"

text \<open>
  What a function object brings to \<^verbatim>\<open>new F(...)\<close>: it is no constructor (an arrow
  function, a method); or it is a class that declares no constructor, so that the
  synthesized one runs, which for a derived class calls the constructor of the base
  class with the same arguments; or it declares a constructor. The declared constructor
  is given the arguments and the instance fields of its class; it throws or leaves the
  own properties of the new object. It stands for all that the constructor runs, a
  \<^verbatim>\<open>super(...)\<close> call included.
\<close>

datatype ctor_kind =
    NotConstructor
  | Synthesized
  | Declared "(addr \<rightharpoonup> obj) \<Rightarrow> val list \<Rightarrow> props \<Rightarrow> val + props"

text \<open>
  A function object, with its own properties. \<open>p_isInitOnly\<close>, \<open>p_instance\<close> and
  \<open>p_inFlight\<close> are the own properties \<^verbatim>\<open>__isInitOnly\<close>, \<^verbatim>\<open>__instance\<close> and
  \<^verbatim>\<open>__inFlight\<close>, and \<open>p_initPolicy\<close> is the own property keyed by
  \<^verbatim>\<open>SymbolInitPolicy\<close>: \<open>None\<close> where the function object has no such own property.
  \<open>instanceAccessor\<close> says whether \<^verbatim>\<open>markInitOnly\<close> has defined the accessor
  \<^verbatim>\<open>instance\<close> on this function object. \<open>superclass\<close> is the class that a class
  extends.
\<close>

record fobj =
  fname :: string                 \<comment> \<open>\<^verbatim>\<open>F.name\<close>\<close>
  superclass :: "addr option"     \<comment> \<open>\<^verbatim>\<open>class F extends B\<close>: the address of \<^verbatim>\<open>B\<close>\<close>
  callBody :: "body option"       \<comment> \<open>what a call runs; \<open>None\<close> for a class constructor\<close>
  ctorKind :: ctor_kind
  prototype :: "props option"     \<comment> \<open>own properties of \<^verbatim>\<open>F.prototype\<close>; \<open>None\<close>: no prototype\<close>
  fieldInits :: props             \<comment> \<open>the instance fields that \<^verbatim>\<open>F\<close> declares, with their initial values\<close>
  p_isInitOnly :: "val option"
  p_instance :: "val option"
  p_inFlight :: "val option"
  p_initPolicy :: "val option"
  instanceAccessor :: bool

subsection \<open>The realm\<close>

datatype pstate = Pending | Fulfilled val | Rejected val

text \<open>What the realm has done so far, in order.\<close>

datatype obs =
    Warned string                      \<comment> \<open>\<^verbatim>\<open>console.warn\<close>\<close>
  | RanConstructor addr addr           \<comment> \<open>the declared constructor of a class, on an object\<close>
  | RanInitializer addr addr "val list"  \<comment> \<open>the initializer of a class, on an object\<close>

text \<open>
  \<open>tasks\<close> holds the suspended rest of each \<^verbatim>\<open>async\<close> body, under the promise it
  returned, with the object it runs on. \<open>thens\<close> holds the reactions that \<^verbatim>\<open>init\<close>
  registered with \<^verbatim>\<open>.then\<close>: the promise waited for, the constructor and the object the
  callback closes over, and the promise that \<^verbatim>\<open>.then\<close> returned.
\<close>

record realm =
  funs :: "addr \<Rightarrow> fobj"
  objs :: "addr \<rightharpoonup> obj"
  proms :: "addr \<rightharpoonup> pstate"
  tasks :: "addr \<rightharpoonup> addr \<times> (props \<Rightarrow> props \<times> (val + val))"
  thens :: "(addr \<times> fn \<times> addr \<times> addr) list"
  nextAddr :: addr
  trace :: "obs list"

fun target :: "fn \<Rightarrow> addr" where
  "target (Fn c) = c"
| "target (Proxy f) = target f"

text \<open>The function object that a function value stands for, with its own properties.\<close>

definition statics :: "realm \<Rightarrow> fn \<Rightarrow> fobj" where
  "statics s f = funs s (target f)"

text \<open>
  The constructors on the prototype chain of the class at \<open>c\<close>: the class, the class it
  extends, and so on. A class is created after the class it extends and so has the
  greater address; a link to a later address is not followed.
\<close>

function chain :: "(addr \<Rightarrow> fobj) \<Rightarrow> addr \<Rightarrow> addr list" where
  "chain fs c =
     c # (case superclass (fs c) of
            None \<Rightarrow> []
          | Some b \<Rightarrow> if b < c then chain fs b else [])"
  by pat_completeness auto

termination chain
  by (relation "measure snd") auto

declare chain.simps [simp del]

text \<open>
  Reading a static property \<^verbatim>\<open>F.k\<close>: the own property of the first constructor on
  the chain that has one, \<^verbatim>\<open>undefined\<close> when none has.
\<close>

fun firstOwn :: "(fobj \<Rightarrow> val option) \<Rightarrow> (addr \<Rightarrow> fobj) \<Rightarrow> addr list \<Rightarrow> val" where
  "firstOwn sel fs [] = Undefined"
| "firstOwn sel fs (c # cs) = (case sel (fs c) of Some v \<Rightarrow> v | None \<Rightarrow> firstOwn sel fs cs)"

definition readStatic :: "(fobj \<Rightarrow> val option) \<Rightarrow> realm \<Rightarrow> fn \<Rightarrow> val" where
  "readStatic sel s f = firstOwn sel (funs s) (chain (funs s) (target f))"

text \<open>The constructors whose own property such a read looks at.\<close>

fun consulted :: "(fobj \<Rightarrow> val option) \<Rightarrow> (addr \<Rightarrow> fobj) \<Rightarrow> addr list \<Rightarrow> addr list" where
  "consulted sel fs [] = []"
| "consulted sel fs (c # cs) = (case sel (fs c) of Some v \<Rightarrow> [c] | None \<Rightarrow> c # consulted sel fs cs)"

definition setStatics :: "fn \<Rightarrow> (fobj \<Rightarrow> fobj) \<Rightarrow> realm \<Rightarrow> realm" where
  "setStatics f upd s = s\<lparr>funs := (funs s)(target f := upd (funs s (target f)))\<rparr>"

definition warn :: "string \<Rightarrow> realm \<Rightarrow> realm" where
  "warn m s = s\<lparr>trace := trace s @ [Warned m]\<rparr>"

definition quoted :: "string \<Rightarrow> string" where
  "quoted n = [CHR 0x27] @ n @ [CHR 0x27]"

text \<open>The messages of the polyfill's errors and of its warning, for a class named \<open>n\<close>.\<close>

definition noInitializerWarning :: "string \<Rightarrow> string" where
  "noInitializerWarning n =
     ''[init-only] Class '' @ (if n \<noteq> [] then n else ''<anonymous>'')
       @ '' marked init-only but has no own '' @ quoted ''initializer'' @ '' method.''"

definition notInitialized :: "string \<Rightarrow> string" where
  "notInitialized n =
     ''Class '' @ quoted n @ '' not initialized. Call '' @ quoted (''init '' @ n @ ''(...)'')
       @ '' first.''"

definition notInitOnly :: "string \<Rightarrow> string" where
  "notInitOnly n =
     ''Class '' @ quoted n @ '' is not init-only. Use '' @ quoted (''new '' @ n @ ''(...)'')
       @ ''.''"

definition mustDefineInitializer :: "string \<Rightarrow> string" where
  "mustDefineInitializer n =
     ''Init-only class '' @ quoted n @ '' must define an own instance method ''
       @ quoted ''initializer'' @ ''.''"

definition useInit :: "string \<Rightarrow> string" where
  "useInit n =
     ''Class '' @ quoted n @ '' is init-only. Use '' @ quoted (''init '' @ n @ ''(...)'')
       @ '' instead of '' @ quoted ''new'' @ ''.''"

text \<open>
  \<^verbatim>\<open>o.k\<close> on an ordinary object: its own property, else the own property of the first
  prototype object that has one, along the chain of the class it was allocated for, else
  \<^verbatim>\<open>undefined\<close>. A function object without a prototype object ends the chain.
\<close>

fun protoLookup :: "(addr \<Rightarrow> fobj) \<Rightarrow> string \<Rightarrow> addr list \<Rightarrow> val" where
  "protoLookup fs k [] = Undefined"
| "protoLookup fs k (c # cs) =
     (case prototype (fs c) of
        None \<Rightarrow> Undefined
      | Some p \<Rightarrow> (case p k of Some v \<Rightarrow> v | None \<Rightarrow> protoLookup fs k cs))"

definition getProp :: "realm \<Rightarrow> addr \<Rightarrow> string \<Rightarrow> val" where
  "getProp s a k =
     (case objs s a of
        None \<Rightarrow> Undefined
      | Some ob \<Rightarrow>
          (case own ob k of
             Some v \<Rightarrow> v
           | None \<Rightarrow>
               (case protoOf ob of
                  None \<Rightarrow> Undefined
                | Some c \<Rightarrow> protoLookup (funs s) k (chain (funs s) c))))"

subsection \<open>isThenable\<close>

text \<open>
  \<^verbatim>\<open>function isThenable(x) { return x && typeof x.then === 'function'; }\<close>

  A native promise is truthy and inherits \<^verbatim>\<open>Promise.prototype.then\<close>. An ordinary
  object is truthy and is thenable when its \<^verbatim>\<open>then\<close> is a function. The falsy values
  stop at \<^verbatim>\<open>x &&\<close>; the primitive values, error objects and function objects of this
  model have no \<^verbatim>\<open>then\<close>.
\<close>

fun isThenable :: "realm \<Rightarrow> val \<Rightarrow> bool" where
  "isThenable s (PromV p) = True"
| "isThenable s (ObjV a) = (typeof (getProp s a ''then'') = ''function'')"
| "isThenable s x = False"

subsection \<open>The init-only test\<close>

text \<open>
  \<^verbatim>\<open>!!F.__isInitOnly || Object.prototype.hasOwnProperty.call(F.prototype, 'initializer')\<close>,
  as \<^verbatim>\<open>init\<close> and the \<^verbatim>\<open>construct\<close> trap both compute it. \<^verbatim>\<open>F.__isInitOnly\<close> is
  a read through the chain; \<^verbatim>\<open>F.prototype\<close> is an own property of every function
  object that has one. \<^verbatim>\<open>hasOwnProperty\<close> throws on \<^verbatim>\<open>undefined\<close>.
\<close>

definition isInitOnly :: "realm \<Rightarrow> fn \<Rightarrow> bool result" where
  "isInitOnly s f =
     (if truthy (readStatic p_isInitOnly s f) then Inr True
      else (case prototype (statics s f) of
              None \<Rightarrow> Inl (TypeErrorV ''Cannot convert undefined or null to object'')
            | Some p \<Rightarrow> Inr (p ''initializer'' \<noteq> None)))"

subsection \<open>markInitOnly and the accessor it defines\<close>

definition markInitOnly :: "val \<Rightarrow> realm \<Rightarrow> val result \<times> realm" where
  "markInitOnly C s =
     (case C of
        FunV f \<Rightarrow>
          (let s1 = setStatics f (\<lambda>F. F\<lparr>p_isInitOnly := Some (BoolV True)\<rparr>) s in
           case prototype (statics s1 f) of
             None \<Rightarrow> (Inl (TypeErrorV ''Cannot convert undefined or null to object''), s1)
           | Some p \<Rightarrow>
               (let s2 =
                  (if p ''initializer'' = None
                   then warn (noInitializerWarning (fname (statics s1 f))) s1
                   else s1)
                in if instanceAccessor (statics s2 f)
                   then (Inl (TypeErrorV ''Cannot redefine property: instance''), s2)
                   else (Inr C, setStatics f (\<lambda>F. F\<lparr>instanceAccessor := True\<rparr>) s2)))
      | _ \<Rightarrow> (Inl (TypeErrorV ''markInitOnly target must be a class/constructor''), s))"

text \<open>
  \<^verbatim>\<open>Object.defineProperty\<close> throws when the function object has the accessor already:
  \<^verbatim>\<open>markInitOnly\<close> defines it as not configurable.

  Reading \<^verbatim>\<open>C.instance\<close>: the getter of the first constructor on the chain on which
  \<^verbatim>\<open>markInitOnly\<close> has defined the accessor runs, and reads \<^verbatim>\<open>__instance\<close> and the
  name of the class it was defined for. Where no constructor on the chain has the
  accessor, the read gives \<^verbatim>\<open>undefined\<close>.
\<close>

definition instance_get :: "fn \<Rightarrow> realm \<Rightarrow> val result" where
  "instance_get C s =
     (case find (\<lambda>c. instanceAccessor (funs s c)) (chain (funs s) (target C)) of
        None \<Rightarrow> Inr Undefined
      | Some c \<Rightarrow>
          (if \<not> truthy (readStatic p_instance s (Fn c))
           then Inl (TypeErrorV (notInitialized (fname (funs s c))))
           else Inr (readStatic p_instance s (Fn c))))"

subsection \<open>Construction and guardNewForInitOnly\<close>

definition alloc :: "addr \<Rightarrow> props \<Rightarrow> realm \<Rightarrow> addr \<times> realm" where
  "alloc c ps s =
     (nextAddr s,
      s\<lparr>objs := (objs s)(nextAddr s \<mapsto> \<lparr>protoOf = Some c, own = ps\<rparr>),
        nextAddr := Suc (nextAddr s)\<rparr>)"

text \<open>
  What the constructors along a chain leave in a new object, and which declared
  constructors have run for it. A declared constructor runs with the arguments. A class
  that declares none passes the arguments on to the class it extends and then adds its
  own instance fields; with no class left, the object is empty.
\<close>

fun runCtors ::
  "(addr \<Rightarrow> fobj) \<Rightarrow> (addr \<rightharpoonup> obj) \<Rightarrow> val list \<Rightarrow> addr list \<Rightarrow> (val + props) \<times> addr list" where
  "runCtors fs h args [] = (Inr Map.empty, [])"
| "runCtors fs h args (c # cs) =
     (case ctorKind (fs c) of
        Declared b \<Rightarrow> (b h args (fieldInits (fs c)), [c])
      | _ \<Rightarrow>
          (case runCtors fs h args cs of
             (Inl e, ks) \<Rightarrow> (Inl e, ks)
           | (Inr ps, ks) \<Rightarrow> (Inr (ps ++ fieldInits (fs c)), ks)))"

text \<open>
  The instance fields that the classes of a chain declare, those of the base class
  first.
\<close>

fun fieldsOf :: "(addr \<Rightarrow> fobj) \<Rightarrow> addr list \<Rightarrow> props" where
  "fieldsOf fs [] = Map.empty"
| "fieldsOf fs (c # cs) = fieldsOf fs cs ++ fieldInits (fs c)"

text \<open>
  \<^verbatim>\<open>new F(...args)\<close> and \<^verbatim>\<open>Reflect.construct(F, args)\<close>. On a function object that is
  a constructor, the constructors along its chain run and the new object is allocated
  with the prototype object of \<^verbatim>\<open>F\<close>. On the proxy the \<^verbatim>\<open>construct\<close> trap of
  \<^verbatim>\<open>guardNewForInitOnly\<close> runs:

  \<^verbatim>\<open>construct(target, args, newTarget) {
    const isInitOnly = !!target.__isInitOnly || ...hasOwnProperty.call(target.prototype, 'initializer');
    if (isInitOnly) throw new TypeError(`Class '${target.name}' is init-only. Use 'init ${target.name}(...)' instead of 'new'.`);
    return Reflect.construct(target, args, newTarget); }\<close>
\<close>

fun construct :: "fn \<Rightarrow> val list \<Rightarrow> realm \<Rightarrow> addr result \<times> realm" where
  "construct (Fn c) args s =
     (if ctorKind (funs s c) = NotConstructor
      then (Inl (TypeErrorV (fname (funs s c) @ '' is not a constructor'')), s)
      else
        (case runCtors (funs s) (objs s) args (chain (funs s) c) of
           (Inl e, ks) \<Rightarrow>
             (Inl e, s\<lparr>trace := trace s @ map (\<lambda>k. RanConstructor k (nextAddr s)) ks\<rparr>)
         | (Inr ps, ks) \<Rightarrow>
             (case alloc c ps s of
                (a, s1) \<Rightarrow> (Inr a, s1\<lparr>trace := trace s1 @ map (\<lambda>k. RanConstructor k a) ks\<rparr>))))"
| "construct (Proxy tgt) args s =
     (case isInitOnly s tgt of
        Inl e \<Rightarrow> (Inl e, s)
      | Inr True \<Rightarrow>
          (Inl (TypeErrorV (useInit (fname (statics s tgt)))), s)
      | Inr False \<Rightarrow> construct tgt args s)"

definition guardNewForInitOnly :: "fn \<Rightarrow> fn" where
  "guardNewForInitOnly C = Proxy C"

subsection \<open>Promises\<close>

definition thisProps :: "realm \<Rightarrow> addr \<Rightarrow> props" where
  "thisProps s a = (case objs s a of None \<Rightarrow> Map.empty | Some ob \<Rightarrow> own ob)"

definition setOwn :: "addr \<Rightarrow> props \<Rightarrow> realm \<Rightarrow> realm" where
  "setOwn a ps s =
     (case objs s a of
        None \<Rightarrow> s
      | Some ob \<Rightarrow> s\<lparr>objs := (objs s)(a \<mapsto> ob\<lparr>own := ps\<rparr>)\<rparr>)"

definition newPromise :: "pstate \<Rightarrow> realm \<Rightarrow> addr \<times> realm" where
  "newPromise st s =
     (nextAddr s, s\<lparr>proms := (proms s)(nextAddr s \<mapsto> st), nextAddr := Suc (nextAddr s)\<rparr>)"

text \<open>
  \<^verbatim>\<open>Promise.resolve(x)\<close>: a native promise is returned as it is; for another thenable a
  new promise follows it, and stays pending until the thenable settles it; any other
  value gives a promise fulfilled with it.
\<close>

definition promiseResolve :: "val \<Rightarrow> realm \<Rightarrow> addr \<times> realm" where
  "promiseResolve x s =
     (case x of
        PromV p \<Rightarrow> (p, s)
      | _ \<Rightarrow> (if isThenable s x then newPromise Pending s else newPromise (Fulfilled x) s))"

subsection \<open>init\<close>

text \<open>\<^verbatim>\<open>ctor[SymbolInitPolicy] || 'return-first'\<close>\<close>

definition policyOf :: "realm \<Rightarrow> fn \<Rightarrow> val" where
  "policyOf s f =
     (if truthy (readStatic p_initPolicy s f) then readStatic p_initPolicy s f
      else StrV ''return-first'')"

text \<open>
  \<^verbatim>\<open>initFn.apply(o, args)\<close>, for the \<^verbatim>\<open>initFn\<close> read from \<^verbatim>\<open>o.initializer\<close> while
  \<^verbatim>\<open>init\<close> initializes the class \<open>ctor\<close>. Calling a class constructor throws.
\<close>

definition applyInitializer ::
  "val \<Rightarrow> fn \<Rightarrow> addr \<Rightarrow> val list \<Rightarrow> realm \<Rightarrow> val result \<times> realm" where
  "applyInitializer initFn ctor a args s =
     (case initFn of
        FunV g \<Rightarrow>
          (case callBody (statics s g) of
             None \<Rightarrow>
               (Inl (TypeErrorV (''Class constructor '' @ fname (statics s g)
                       @ '' cannot be invoked without '' @ quoted ''new'')), s)
           | Some b \<Rightarrow>
               (let s1 = s\<lparr>trace := trace s @ [RanInitializer (target ctor) a args]\<rparr>
                in case b (objs s) args (thisProps s a) of
                     Return ps v \<Rightarrow> (Inr v, setOwn a ps s1)
                   | Throw e \<Rightarrow> (Inl e, s1)
                   | Await ps k \<Rightarrow>
                       (case newPromise Pending (setOwn a ps s1) of
                          (p, s2) \<Rightarrow> (Inr (PromV p), s2\<lparr>tasks := (tasks s2)(p \<mapsto> (a, k))\<rparr>))))
      | _ \<Rightarrow> (Inl (TypeErrorV ''initFn.apply is not a function''), s))"

text \<open>
  \<^verbatim>\<open>export function init(ctor, ...args)\<close>, line by line. The \<^verbatim>\<open>.then\<close> callback is not
  run here: \<^verbatim>\<open>init\<close> registers it in \<open>thens\<close> and returns the promise of \<^verbatim>\<open>.then\<close>.
\<close>

definition init :: "val \<Rightarrow> val list \<Rightarrow> realm \<Rightarrow> val result \<times> realm" where
  "init ctor args s =
     (case ctor of
        FunV f \<Rightarrow>
          (case isInitOnly s f of
             Inl e \<Rightarrow> (Inl e, s)
           | Inr False \<Rightarrow>
               (Inl (TypeErrorV (notInitOnly (fname (statics s f)))), s)
           | Inr True \<Rightarrow>
               if truthy (readStatic p_instance s f) then (Inr (readStatic p_instance s f), s)
               else if truthy (readStatic p_inFlight s f)
               then (Inr (readStatic p_inFlight s f), s)
               else
                 (case construct f [] s of
                    (Inl e, s1) \<Rightarrow> (Inl e, s1)
                  | (Inr a, s1) \<Rightarrow>
                      (let initFn = getProp s1 a ''initializer'' in
                       if typeof initFn \<noteq> ''function''
                       then (Inl (TypeErrorV (mustDefineInitializer (fname (statics s1 f)))), s1)
                       else
                         (let policy = policyOf s1 f
                          in case applyInitializer initFn f a args s1 of
                               (Inl e, s2) \<Rightarrow> (Inl e, s2)
                             | (Inr maybe, s2) \<Rightarrow>
                                 if isThenable s2 maybe
                                 then (case promiseResolve maybe s2 of
                                         (src, s3) \<Rightarrow>
                                           (case newPromise Pending s3 of
                                              (d, s4) \<Rightarrow>
                                                (Inr (PromV d),
                                                 setStatics f (\<lambda>F. F\<lparr>p_inFlight := Some (PromV d)\<rparr>)
                                                   (s4\<lparr>thens := thens s4 @ [(src, f, a, d)]\<rparr>))))
                                 else (Inr (ObjV a),
                                       setStatics f (\<lambda>F. F\<lparr>p_instance := Some (ObjV a)\<rparr>) s2)))))
      | _ \<Rightarrow> (Inl (TypeErrorV ''init target must be a class/constructor''), s))"

subsection \<open>Settlement\<close>

text \<open>
  The suspended rest of an \<^verbatim>\<open>async\<close> body runs to its end: it updates \<^verbatim>\<open>this\<close> and
  settles the promise the body had returned. A promise resolved with a thenable stays
  pending and follows it.
\<close>

definition finish :: "addr \<Rightarrow> realm \<Rightarrow> realm" where
  "finish p s =
     (case tasks s p of
        None \<Rightarrow> s
      | Some (a, k) \<Rightarrow>
          (case k (thisProps s a) of
             (ps, r) \<Rightarrow>
               (let s1 = (setOwn a ps s)\<lparr>tasks := (tasks s)(p := None)\<rparr>
                in case r of
                     Inl e \<Rightarrow> s1\<lparr>proms := (proms s1)(p \<mapsto> Rejected e)\<rparr>
                   | Inr v \<Rightarrow>
                       (if isThenable s1 v then s1
                        else s1\<lparr>proms := (proms s1)(p \<mapsto> Fulfilled v)\<rparr>))))"

text \<open>
  The environment settles a pending promise that no suspended body and no registered
  reaction owns: a promise made outside the polyfill, or one that follows a thenable.
\<close>

definition settle :: "addr \<Rightarrow> val + val \<Rightarrow> realm \<Rightarrow> realm" where
  "settle p r s =
     (if proms s p = Some Pending \<and> tasks s p = None
         \<and> p \<notin> set (map (\<lambda>(src, ctor, a, d). d) (thens s))
      then s\<lparr>proms := (proms s)(p \<mapsto> (case r of Inl e \<Rightarrow> Rejected e | Inr v \<Rightarrow> Fulfilled v))\<rparr>
      else s)"

text \<open>
  The reaction that \<^verbatim>\<open>init\<close> registered, once the promise it waits for has settled:

  \<^verbatim>\<open>Promise.resolve(maybe).then(() => { ctor.__inFlight = null; ctor.__instance = o; return o; })\<close>

  On fulfilment the callback runs and the promise of \<^verbatim>\<open>.then\<close> is resolved with \<^verbatim>\<open>o\<close>.
  There is no rejection handler: on rejection the promise of \<^verbatim>\<open>.then\<close> is rejected with
  the same reason and the callback does not run. A reaction whose promise is still
  pending stays registered.
\<close>

definition runJob :: "addr \<times> fn \<times> addr \<times> addr \<Rightarrow> realm \<Rightarrow> realm" where
  "runJob j s =
     (case j of
        (src, ctor, a, d) \<Rightarrow>
          (case proms s src of
             Some (Fulfilled v) \<Rightarrow>
               (let s1 = setStatics ctor (\<lambda>F. F\<lparr>p_inFlight := Some Null\<rparr>) s;
                    s2 = setStatics ctor (\<lambda>F. F\<lparr>p_instance := Some (ObjV a)\<rparr>) s1
                in if isThenable s2 (ObjV a) then s2
                   else s2\<lparr>proms := (proms s2)(d \<mapsto> Fulfilled (ObjV a))\<rparr>)
           | Some (Rejected e) \<Rightarrow> s\<lparr>proms := (proms s)(d \<mapsto> Rejected e)\<rparr>
           | _ \<Rightarrow> s\<lparr>thens := thens s @ [j]\<rparr>))"

definition settled :: "realm \<Rightarrow> addr \<Rightarrow> bool" where
  "settled s p = (case proms s p of Some (Fulfilled v) \<Rightarrow> True | Some (Rejected e) \<Rightarrow> True | _ \<Rightarrow> False)"

text \<open>One turn of the job queue: the reactions whose promise has settled run, in order.\<close>

definition tick :: "realm \<Rightarrow> realm" where
  "tick s =
     fold runJob (filter (\<lambda>(src, ctor, a, d). settled s src) (thens s))
       (s\<lparr>thens := filter (\<lambda>(src, ctor, a, d). \<not> settled s src) (thens s)\<rparr>)"

subsection \<open>The classes of the repository's examples\<close>

definition classDecl :: "string \<Rightarrow> props \<Rightarrow> fobj" where
  "classDecl n p =
     \<lparr>fname = n, superclass = None, callBody = None, ctorKind = Synthesized,
      prototype = Some p, fieldInits = Map.empty, p_isInitOnly = None, p_instance = None,
      p_inFlight = None, p_initPolicy = None, instanceAccessor = False\<rparr>"

definition methodDecl :: "string \<Rightarrow> body \<Rightarrow> fobj" where
  "methodDecl n b =
     \<lparr>fname = n, superclass = None, callBody = Some b, ctorKind = NotConstructor,
      prototype = None, fieldInits = Map.empty, p_isInitOnly = None, p_instance = None,
      p_inFlight = None, p_initPolicy = None, instanceAccessor = False\<rparr>"

definition arg0 :: "val list \<Rightarrow> val" where
  "arg0 args = (case args of [] \<Rightarrow> Undefined | x # xs \<Rightarrow> x)"

text \<open>\<^verbatim>\<open>class App { initializer({ port }) { this.port = port; } }\<close>\<close>

definition App_initializer :: body where
  "App_initializer h args this =
     (case arg0 args of
        Undefined \<Rightarrow> Throw (TypeErrorV ''Cannot destructure property port of undefined'')
      | Null \<Rightarrow> Throw (TypeErrorV ''Cannot destructure property port of null'')
      | ObjV a \<Rightarrow>
          Return (this(''port'' \<mapsto>
                    (case h a of
                       None \<Rightarrow> Undefined
                     | Some ob \<Rightarrow> (case own ob ''port'' of None \<Rightarrow> Undefined | Some v \<Rightarrow> v))))
            Undefined
      | _ \<Rightarrow> Return (this(''port'' \<mapsto> Undefined)) Undefined)"

text \<open>\<^verbatim>\<open>class DB { async initializer(url) { await delay(50); this.url = url; this.ready = true; } }\<close>\<close>

definition DB_initializer :: body where
  "DB_initializer h args this =
     Await this (\<lambda>ps. (ps(''url'' \<mapsto> arg0 args, ''ready'' \<mapsto> BoolV True), Inr Undefined))"

text \<open>
  \<^verbatim>\<open>class Settings { static [SymbolInitPolicy] = 'strict'; initializer(opts) { this.opts = opts; } }\<close>
\<close>

definition Settings_initializer :: body where
  "Settings_initializer h args this = Return (this(''opts'' \<mapsto> arg0 args)) Undefined"

text \<open>
  A class whose asynchronous initializer fails:
  \<^verbatim>\<open>class Flaky { async initializer(url) { await delay(50); throw new TypeError('unreachable: ' + url); } }\<close>
\<close>

definition Flaky_initializer :: body where
  "Flaky_initializer h args this =
     Await this (\<lambda>ps. (ps, Inl (TypeErrorV ''unreachable'')))"

text \<open>
  A class that declares both a constructor and an initializer:
  \<^verbatim>\<open>class Legacy { constructor(tag) { this.built = true; this.tag = tag; } initializer(opts) { this.opts = opts; } }\<close>
\<close>

definition Legacy_constructor :: "(addr \<rightharpoonup> obj) \<Rightarrow> val list \<Rightarrow> props \<Rightarrow> val + props" where
  "Legacy_constructor h args this = Inr (this(''built'' \<mapsto> BoolV True, ''tag'' \<mapsto> arg0 args))"

text \<open>
  A class whose initializer returns an object of its own:
  \<^verbatim>\<open>class Config { initializer(opts) { this.opts = opts; return opts; } }\<close>
\<close>

definition Config_initializer :: body where
  "Config_initializer h args this = Return (this(''opts'' \<mapsto> arg0 args)) (arg0 args)"

text \<open>
  A base class with a synchronous initializer and a class that extends it, with an
  asynchronous initializer of its own:
  \<^verbatim>\<open>class Base { initializer() {} }\<close>
  \<^verbatim>\<open>class Sub extends Base { async initializer(url) { await delay(50); this.url = url; this.ready = true; } }\<close>
\<close>

definition Base_initializer :: body where
  "Base_initializer h args this = Return this Undefined"

text \<open>
  A class that declares no constructor and extends one that does:
  \<^verbatim>\<open>class Child extends Legacy { initializer(opts) { this.opts = opts; } }\<close>
\<close>

text \<open>
  The function objects of the examples, by address: \<^verbatim>\<open>App\<close> (0) and its initializer
  (1), \<^verbatim>\<open>DB\<close> (2, 3), \<^verbatim>\<open>Settings\<close> (4, 5), \<^verbatim>\<open>class User {}\<close> (6), \<^verbatim>\<open>Flaky\<close> (7, 8),
  \<^verbatim>\<open>Legacy\<close> (9, with the initializer of \<^verbatim>\<open>Settings\<close>), \<^verbatim>\<open>Config\<close> (10, 11),
  \<^verbatim>\<open>Base\<close> (12, 13), \<^verbatim>\<open>Sub\<close> (14, 15) and \<^verbatim>\<open>Child\<close> (16, 17).
\<close>

definition exampleFuns :: "addr \<Rightarrow> fobj" where
  "exampleFuns n =
     (if n = 0 then classDecl ''App'' [''initializer'' \<mapsto> FunV (Fn 1)]
      else if n = 1 then methodDecl ''initializer'' App_initializer
      else if n = 2 then classDecl ''DB'' [''initializer'' \<mapsto> FunV (Fn 3)]
      else if n = 3 then methodDecl ''initializer'' DB_initializer
      else if n = 4 then (classDecl ''Settings'' [''initializer'' \<mapsto> FunV (Fn 5)])
                           \<lparr>p_initPolicy := Some (StrV ''strict'')\<rparr>
      else if n = 5 then methodDecl ''initializer'' Settings_initializer
      else if n = 7 then classDecl ''Flaky'' [''initializer'' \<mapsto> FunV (Fn 8)]
      else if n = 8 then methodDecl ''initializer'' Flaky_initializer
      else if n = 9 then (classDecl ''Legacy'' [''initializer'' \<mapsto> FunV (Fn 5)])
                           \<lparr>ctorKind := Declared Legacy_constructor\<rparr>
      else if n = 10 then classDecl ''Config'' [''initializer'' \<mapsto> FunV (Fn 11)]
      else if n = 11 then methodDecl ''initializer'' Config_initializer
      else if n = 12 then classDecl ''Base'' [''initializer'' \<mapsto> FunV (Fn 13)]
      else if n = 13 then methodDecl ''initializer'' Base_initializer
      else if n = 14 then (classDecl ''Sub'' [''initializer'' \<mapsto> FunV (Fn 15)])
                            \<lparr>superclass := Some 12\<rparr>
      else if n = 15 then methodDecl ''initializer'' DB_initializer
      else if n = 16 then (classDecl ''Child'' [''initializer'' \<mapsto> FunV (Fn 17)])
                            \<lparr>superclass := Some 9\<rparr>
      else if n = 17 then methodDecl ''initializer'' Settings_initializer
      else classDecl ''User'' Map.empty)"

text \<open>
  The realm of the examples: the classes above, not yet initialized, and the argument
  objects \<^verbatim>\<open>{ port: 3000 }\<close> (at 20) and \<^verbatim>\<open>{ port: 4000 }\<close> (at 21).
\<close>

definition example :: realm where
  "example =
     \<lparr>funs = exampleFuns,
      objs = [20 \<mapsto> \<lparr>protoOf = None, own = [''port'' \<mapsto> NumV 3000]\<rparr>,
              21 \<mapsto> \<lparr>protoOf = None, own = [''port'' \<mapsto> NumV 4000]\<rparr>],
      proms = Map.empty, tasks = Map.empty, thens = [], nextAddr = 30, trace = []\<rparr>"

subsection \<open>What happens in a realm\<close>

text \<open>
  The calls of a program and the turns of its environment, one after the other: a call
  of \<^verbatim>\<open>init\<close>, a \<^verbatim>\<open>new\<close>, a call of \<^verbatim>\<open>markInitOnly\<close>, the end of a suspended \<^verbatim>\<open>async\<close>
  body, the settlement of a promise from outside, a turn of the job queue.
\<close>

datatype event =
    Init val "val list"
  | New fn "val list"
  | Mark val
  | Finish addr
  | Settle addr "val + val"
  | Tick








section \<open>Lemmas\<close>

subsection \<open>Reads along the chain\<close>

lemma chain_Cons: "\<exists>cs. chain fs c = c # cs"
  by (subst chain.simps) simp





lemma consulted_own:
  "sel (fs c) = Some v \<Longrightarrow>
     consulted sel fs (chain fs c) = [c] \<and> firstOwn sel fs (chain fs c) = v"
  by (subst chain.simps, subst (2) chain.simps) simp





lemma statics_target: "target g = target f \<Longrightarrow> statics s g = statics s f"
  by (simp add: statics_def)


lemma readStatic_own:
  "sel (statics s f) = Some v \<Longrightarrow> readStatic sel s f = v"
  using consulted_own [of sel "funs s" "target f" v] by (simp add: readStatic_def statics_def)

subsection \<open>What the calls leave unchanged\<close>






lemma promiseResolve_keeps:
  "promiseResolve x s = (p, s1) \<Longrightarrow>
     objs s1 = objs s \<and> trace s1 = trace s \<and> funs s1 = funs s \<and> thens s1 = thens s"
  by (auto simp: promiseResolve_def newPromise_def split: val.splits if_splits)

lemma newPromise_keeps:
  "newPromise st s = (p, s1) \<Longrightarrow>
     objs s1 = objs s \<and> trace s1 = trace s \<and> funs s1 = funs s \<and> thens s1 = thens s"
  by (auto simp: newPromise_def)




lemma markInitOnly_ok:
  assumes "prototype (statics s f) = Some p" "\<not> instanceAccessor (statics s f)"
  shows "markInitOnly (FunV f) s
           = (Inr (FunV f),
              setStatics f (\<lambda>F. F\<lparr>instanceAccessor := True\<rparr>)
                ((if p ''initializer'' = None
                  then warn (noInitializerWarning (fname (statics s f)))
                  else (\<lambda>s. s))
                   (setStatics f (\<lambda>F. F\<lparr>p_isInitOnly := Some (BoolV True)\<rparr>) s)))"
  using assms
  by (simp add: markInitOnly_def Let_def statics_def setStatics_def warn_def)

lemma isInitOnly_funs: "funs s1 = funs s \<Longrightarrow> isInitOnly s1 f = isInitOnly s f"
  by (simp add: isInitOnly_def statics_def readStatic_def)





subsection \<open>The paths through init\<close>




lemma init_cases [consumes 1, case_names notInitOnly memoized inFlight constructThrows noInitializer initializerThrows asynchronous synchronous]:
  assumes "init (FunV f) args s = (r, s')"
  obtains
    e where "isInitOnly s f \<noteq> Inr True" "r = Inl e" "s' = s"
  | "isInitOnly s f = Inr True" "truthy (readStatic p_instance s f)"
      "r = Inr (readStatic p_instance s f)" "s' = s"
  | "isInitOnly s f = Inr True" "\<not> truthy (readStatic p_instance s f)"
      "truthy (readStatic p_inFlight s f)" "r = Inr (readStatic p_inFlight s f)" "s' = s"
  | e where "isInitOnly s f = Inr True" "\<not> truthy (readStatic p_instance s f)"
      "\<not> truthy (readStatic p_inFlight s f)" "construct f [] s = (Inl e, s')" "r = Inl e"
  | a where "isInitOnly s f = Inr True" "\<not> truthy (readStatic p_instance s f)"
      "\<not> truthy (readStatic p_inFlight s f)" "construct f [] s = (Inr a, s')"
      "typeof (getProp s' a ''initializer'') \<noteq> ''function''"
      "r = Inl (TypeErrorV (mustDefineInitializer (fname (statics s' f))))"
  | a s1 e where "isInitOnly s f = Inr True" "\<not> truthy (readStatic p_instance s f)"
      "\<not> truthy (readStatic p_inFlight s f)" "construct f [] s = (Inr a, s1)"
      "typeof (getProp s1 a ''initializer'') = ''function''"
      "applyInitializer (getProp s1 a ''initializer'') f a args s1 = (Inl e, s')" "r = Inl e"
  | a s1 maybe s2 src s3 d s4 where "isInitOnly s f = Inr True"
      "\<not> truthy (readStatic p_instance s f)"
      "\<not> truthy (readStatic p_inFlight s f)" "construct f [] s = (Inr a, s1)"
      "typeof (getProp s1 a ''initializer'') = ''function''"
      "applyInitializer (getProp s1 a ''initializer'') f a args s1 = (Inr maybe, s2)"
      "isThenable s2 maybe" "promiseResolve maybe s2 = (src, s3)"
      "newPromise Pending s3 = (d, s4)" "r = Inr (PromV d)"
      "s' = setStatics f (\<lambda>F. F\<lparr>p_inFlight := Some (PromV d)\<rparr>)
              (s4\<lparr>thens := thens s4 @ [(src, f, a, d)]\<rparr>)"
  | a s1 v s2 where "isInitOnly s f = Inr True" "\<not> truthy (readStatic p_instance s f)"
      "\<not> truthy (readStatic p_inFlight s f)" "construct f [] s = (Inr a, s1)"
      "typeof (getProp s1 a ''initializer'') = ''function''"
      "applyInitializer (getProp s1 a ''initializer'') f a args s1 = (Inr v, s2)"
      "\<not> isThenable s2 v" "r = Inr (ObjV a)"
      "s' = setStatics f (\<lambda>F. F\<lparr>p_instance := Some (ObjV a)\<rparr>) s2"
proof (cases "isInitOnly s f = Inr True")
  case False
  with assms have "\<exists>e. r = Inl e \<and> s' = s"
    by (cases "isInitOnly s f") (auto simp: init_def split: bool.splits)
  with False that(1) show thesis by blast
next
  case io: True
  show thesis
  proof (cases "truthy (readStatic p_instance s f)")
    case True
    with assms io have "r = Inr (readStatic p_instance s f)" "s' = s"
      by (auto simp: init_def)
    with io True that(2) show thesis by blast
  next
    case ni: False
    show thesis
    proof (cases "truthy (readStatic p_inFlight s f)")
      case True
      with assms io ni have "r = Inr (readStatic p_inFlight s f)" "s' = s"
        by (auto simp: init_def)
      with io ni True that(3) show thesis by blast
    next
      case nf: False
      obtain rc s1 where c: "construct f [] s = (rc, s1)"
        by (cases "construct f [] s")
      show thesis
      proof (cases rc)
        case (Inl e)
        with assms io ni nf c have "r = Inl e" "s' = s1"
          by (auto simp: init_def)
        with io ni nf c Inl that(4) show thesis by blast
      next
        case (Inr a)
        note ca = c [unfolded Inr]
        show thesis
        proof (cases "typeof (getProp s1 a ''initializer'') = ''function''")
          case False
          with assms io ni nf ca
          have "r = Inl (TypeErrorV (mustDefineInitializer (fname (statics s1 f))))" "s' = s1"
            by (auto simp: init_def)
          with io ni nf ca False that(5) show thesis by blast
        next
          case fn: True
          obtain ri s2 where ap:
            "applyInitializer (getProp s1 a ''initializer'') f a args s1 = (ri, s2)"
            by (cases "applyInitializer (getProp s1 a ''initializer'') f a args s1")
          show thesis
          proof (cases ri)
            case (Inl e)
            with assms io ni nf ca fn ap have "r = Inl e" "s' = s2"
              by (auto simp: init_def Let_def)
            with io ni nf ca fn ap Inl that(6) show thesis by blast
          next
            case (Inr maybe)
            note ap' = ap [unfolded Inr]
            show thesis
            proof (cases "isThenable s2 maybe")
              case True
              obtain src s3 where pr: "promiseResolve maybe s2 = (src, s3)"
                by (cases "promiseResolve maybe s2")
              obtain d s4 where np: "newPromise Pending s3 = (d, s4)"
                by (cases "newPromise Pending s3")
              from assms io ni nf ca fn ap' True pr np
              have "r = Inr (PromV d)"
                "s' = setStatics f (\<lambda>F. F\<lparr>p_inFlight := Some (PromV d)\<rparr>)
                        (s4\<lparr>thens := thens s4 @ [(src, f, a, d)]\<rparr>)"
                by (auto simp: init_def Let_def)
              with io ni nf ca fn ap' True pr np that(7) show thesis by blast
            next
              case False
              with assms io ni nf ca fn ap'
              have "r = Inr (ObjV a)"
                "s' = setStatics f (\<lambda>F. F\<lparr>p_instance := Some (ObjV a)\<rparr>) s2"
                by (auto simp: init_def Let_def)
              with io ni nf ca fn ap' False that(8) show thesis by blast
            qed
          qed
        qed
      qed
    qed
  qed
qed

lemma init_fresh:
  assumes i: "init (FunV f) args s = (r, s')"
    and io: "isInitOnly s f = Inr True"
    and ni: "\<not> truthy (readStatic p_instance s f)"
    and nf: "\<not> truthy (readStatic p_inFlight s f)"
    and c: "construct f [] s = (Inr a, s1)"
    and ty: "typeof (getProp s1 a ''initializer'') = ''function''"
    and ap: "applyInitializer (getProp s1 a ''initializer'') f a args s1 = (ri, s2)"
  shows "trace s' = trace s2 \<and> objs s' = objs s2
       \<and> (case ri of
             Inl e \<Rightarrow> r = Inl e
           | Inr v \<Rightarrow>
               if isThenable s2 v
               then r = Inr (PromV (case v of PromV p \<Rightarrow> nextAddr s2 | _ \<Rightarrow> Suc (nextAddr s2)))
               else r = Inr (ObjV a))"
  using i
proof (cases rule: init_cases)
  case (initializerThrows a' s1' e)
  with c ap show ?thesis by simp
next
  case (asynchronous a' s1' maybe s2' src s3 d s4)
  from asynchronous(4,6) c ap have eq: "a' = a" "s1' = s1" "ri = Inr maybe" "s2' = s2"
    by simp_all
  from asynchronous(8,9)
  have "d = (case maybe of PromV p \<Rightarrow> nextAddr s2 | _ \<Rightarrow> Suc (nextAddr s2))"
    unfolding eq by (auto simp: promiseResolve_def newPromise_def split: val.splits if_splits)
  moreover have "trace s' = trace s2 \<and> objs s' = objs s2"
    using promiseResolve_keeps [OF asynchronous(8)] newPromise_keeps [OF asynchronous(9)]
      asynchronous(11) unfolding eq by (simp add: setStatics_def)
  ultimately show ?thesis using asynchronous(7,10) unfolding eq by auto
next
  case (synchronous a' s1' v s2')
  from synchronous(4,6) c ap have eq: "a' = a" "s1' = s1" "ri = Inr v" "s2' = s2"
    by simp_all
  with synchronous(7,8,9) show ?thesis by (simp add: setStatics_def)
qed (use io ni nf c ty in simp_all)


subsection \<open>What a reaction does\<close>















subsection \<open>What later events cannot undo\<close>










subsection \<open>Construction\<close>

lemma construct_class:
  assumes "ctorKind (funs s c) \<noteq> NotConstructor"
    and "runCtors (funs s) (objs s) args (chain (funs s) c) = (Inr ps, ks)"
  shows "construct (Fn c) args s
           = (Inr (nextAddr s),
              s\<lparr>objs := (objs s)(nextAddr s \<mapsto> \<lparr>protoOf = Some c, own = ps\<rparr>),
                nextAddr := Suc (nextAddr s),
                trace := trace s @ map (\<lambda>k. RanConstructor k (nextAddr s)) ks\<rparr>)"
  using assms by (simp add: alloc_def)

lemma runCtors_synthesized:
  "\<forall>x \<in> set cs. ctorKind (fs x) = Synthesized \<Longrightarrow>
     runCtors fs h args cs = (Inr (fieldsOf fs cs), [])"
  by (induction cs) simp_all

lemma runCtors_declared:
  "ctorKind (fs c) = Declared k \<Longrightarrow>
     runCtors fs h args (chain fs c) = (k h args (fieldInits (fs c)), [c])"
  by (subst chain.simps) simp

lemma runCtors_inherited:
  assumes "ctorKind (fs c) = Synthesized" "superclass (fs c) = Some b" "b < c"
    and "ctorKind (fs b) = Declared k"
  shows "runCtors fs h args (chain fs c)
           = (case k h args (fieldInits (fs b)) of
                Inl e \<Rightarrow> (Inl e, [b])
              | Inr ps \<Rightarrow> (Inr (ps ++ fieldInits (fs c)), [b]))"
  using assms runCtors_declared [of fs b k h args]
  by (subst chain.simps) (simp split: sum.splits)

lemma init_first:
  assumes pr: "prototype (funs s c) = Some p" "p ''initializer'' = Some (FunV g)"
    and cb: "callBody (statics s g) = Some b"
    and ni: "\<not> truthy (readStatic p_instance s (Fn c))"
    and nf: "\<not> truthy (readStatic p_inFlight s (Fn c))"
    and ck: "ctorKind (funs s c) \<noteq> NotConstructor"
    and rc: "runCtors (funs s) (objs s) [] (chain (funs s) c) = (Inr ps0, ks)"
    and sh: "ps0 ''initializer'' = None"
  shows "trace (snd (init (FunV (Fn c)) args s))
           = trace s @ map (\<lambda>k. RanConstructor k (nextAddr s)) ks
               @ [RanInitializer c (nextAddr s) args]
       \<and> (case b ((objs s)(nextAddr s \<mapsto> \<lparr>protoOf = Some c, own = ps0\<rparr>)) args ps0 of
             Return ps v \<Rightarrow>
               objs (snd (init (FunV (Fn c)) args s)) (nextAddr s)
                 = Some \<lparr>protoOf = Some c, own = ps\<rparr>
           | Throw e \<Rightarrow>
               fst (init (FunV (Fn c)) args s) = Inl e
               \<and> objs (snd (init (FunV (Fn c)) args s)) (nextAddr s)
                   = Some \<lparr>protoOf = Some c, own = ps0\<rparr>
           | Await ps k \<Rightarrow>
               fst (init (FunV (Fn c)) args s) = Inr (PromV (Suc (Suc (nextAddr s))))
               \<and> objs (snd (init (FunV (Fn c)) args s)) (nextAddr s)
                   = Some \<lparr>protoOf = Some c, own = ps\<rparr>)"
proof -
  let ?a = "nextAddr s"
  let ?new = "\<lparr>protoOf = Some c, own = ps0\<rparr>"
  let ?s1 = "s\<lparr>objs := (objs s)(?a \<mapsto> ?new), nextAddr := Suc ?a,
               trace := trace s @ map (\<lambda>k. RanConstructor k ?a) ks\<rparr>"
  obtain r s' where i: "init (FunV (Fn c)) args s = (r, s')"
    by (cases "init (FunV (Fn c)) args s")
  have io: "isInitOnly s (Fn c) = Inr True"
    using pr by (simp add: isInitOnly_def statics_def)
  have co: "construct (Fn c) [] s = (Inr ?a, ?s1)"
    by (rule construct_class [OF ck rc])
  obtain cs where cs: "chain (funs s) c = c # cs" using chain_Cons by blast
  have gp: "getProp ?s1 ?a ''initializer'' = FunV g"
    using pr sh by (simp add: getProp_def cs)
  then have ty: "typeof (getProp ?s1 ?a ''initializer'') = ''function''" by simp
  have cb1: "callBody (statics ?s1 g) = Some b" using cb by (simp add: statics_def)
  have th: "thisProps ?s1 ?a = ps0" by (simp add: thisProps_def)
  obtain ri s2 where ap: "applyInitializer (getProp ?s1 ?a ''initializer'') (Fn c) ?a args ?s1 = (ri, s2)"
    by (cases "applyInitializer (getProp ?s1 ?a ''initializer'') (Fn c) ?a args ?s1")
  note fr = init_fresh [OF i io ni nf co ty ap]
  have out: "trace s2 = trace s @ map (\<lambda>k. RanConstructor k ?a) ks @ [RanInitializer c ?a args]
       \<and> (case b ((objs s)(?a \<mapsto> ?new)) args ps0 of
             Return ps v \<Rightarrow> objs s2 ?a = Some \<lparr>protoOf = Some c, own = ps\<rparr>
           | Throw e \<Rightarrow> ri = Inl e \<and> objs s2 ?a = Some ?new
           | Await ps k \<Rightarrow>
               ri = Inr (PromV (Suc ?a)) \<and> nextAddr s2 = Suc (Suc ?a)
               \<and> objs s2 ?a = Some \<lparr>protoOf = Some c, own = ps\<rparr>)"
    using ap unfolding gp
    by (auto simp: applyInitializer_def cb1 th setOwn_def newPromise_def
             split: outcome.splits)
  show ?thesis
    unfolding i fst_conv snd_conv
    using fr out by (auto split: outcome.splits)
qed

lemma construct_Inr:
  assumes "construct (Fn c) args s = (Inr a, s1)"
  obtains ps ks where "ctorKind (funs s c) \<noteq> NotConstructor"
    and "runCtors (funs s) (objs s) args (chain (funs s) c) = (Inr ps, ks)"
    and "a = nextAddr s"
    and "s1 = s\<lparr>objs := (objs s)(nextAddr s \<mapsto> \<lparr>protoOf = Some c, own = ps\<rparr>),
                nextAddr := Suc (nextAddr s),
                trace := trace s @ map (\<lambda>k. RanConstructor k (nextAddr s)) ks\<rparr>"
  using assms by (auto simp: alloc_def split: if_splits prod.splits sum.splits)

subsection \<open>Evaluation on the examples\<close>

lemmas example_defs =
  example_def exampleFuns_def classDecl_def methodDecl_def arg0_def
  App_initializer_def DB_initializer_def Settings_initializer_def Flaky_initializer_def
  Legacy_constructor_def Config_initializer_def Base_initializer_def

lemmas call_defs =
  init_def isInitOnly_def statics_def setStatics_def policyOf_def alloc_def getProp_def
  readStatic_def chain.simps
  applyInitializer_def thisProps_def setOwn_def newPromise_def promiseResolve_def
  markInitOnly_def instance_get_def guardNewForInitOnly_def warn_def
  finish_def settle_def runJob_def tick_def settled_def Let_def


section \<open>The claims\<close>

subsection \<open>C1: a rejected initializer\<close>

text \<open>
  Claim C1 (the code departs from it). \<^verbatim>\<open>init(Flaky, 'db')\<close> returns the promise at 32;
  the asynchronous initializer then rejects its own promise, at 31, and the job queue
  turns. The promise at 32 is rejected with the same reason and no instance is
  memoized, as the claim says. But \<^verbatim>\<open>init\<close> gave \<^verbatim>\<open>.then\<close> a fulfilment callback only:
  \<^verbatim>\<open>__inFlight\<close> still holds the rejected promise, and the next \<^verbatim>\<open>init(Flaky, 'db')\<close>
  returns it again without running the initializer a second time.
\<close>

theorem rejection_poisons_registry:
  "(let s1 = snd (init (FunV (Fn 7)) [StrV ''db''] example);
        s2 = tick (finish 31 s1)
    in fst (init (FunV (Fn 7)) [StrV ''db''] example) = Inr (PromV 32)
       \<and> proms s1 31 = Some Pending \<and> proms s1 32 = Some Pending
       \<and> proms s2 31 = Some (Rejected (TypeErrorV ''unreachable''))
       \<and> proms s2 32 = Some (Rejected (TypeErrorV ''unreachable''))
       \<and> readStatic p_instance s2 (Fn 7) = Undefined
       \<and> readStatic p_inFlight s2 (Fn 7) = PromV 32
       \<and> fst (init (FunV (Fn 7)) [StrV ''db''] s2) = Inr (PromV 32)
       \<and> trace (snd (init (FunV (Fn 7)) [StrV ''db''] s2)) = [RanInitializer 7 30 [StrV ''db'']])"
  by (simp add: call_defs example_defs)

subsection \<open>C2: the strict policy\<close>

text \<open>
  Claim C2 (the code departs from it). \<^verbatim>\<open>Settings\<close> has the policy \<^verbatim>\<open>strict\<close>. The second
  \<^verbatim>\<open>init(Settings, ...)\<close> does not throw: it returns the instance of the first call,
  whose \<^verbatim>\<open>opts\<close> are those of the first call. \<^verbatim>\<open>init\<close> reads the policy and never
  uses it.
\<close>

theorem strict_policy_returns_instance:
  "policyOf example (Fn 4) = StrV ''strict''
   \<and> fst (init (FunV (Fn 4)) [ObjV 20] example) = Inr (ObjV 30)
   \<and> fst (init (FunV (Fn 4)) [ObjV 21] (snd (init (FunV (Fn 4)) [ObjV 20] example)))
       = Inr (ObjV 30)
   \<and> getProp (snd (init (FunV (Fn 4)) [ObjV 21] (snd (init (FunV (Fn 4)) [ObjV 20] example))))
        30 ''opts'' = ObjV 20"
  by (simp add: call_defs example_defs)

subsection \<open>C3: single flight\<close>

text \<open>
  Claim C3 (the code departs from it). \<^verbatim>\<open>Sub\<close> extends \<^verbatim>\<open>Base\<close>, and each has an
  initializer of its own. \<^verbatim>\<open>init(Sub, 'a')\<close> starts the asynchronous initialization of
  \<^verbatim>\<open>Sub\<close> and returns the promise at 32, which it stores in \<^verbatim>\<open>Sub.__inFlight\<close>. While
  that promise is pending, \<^verbatim>\<open>init(Base)\<close> initializes \<^verbatim>\<open>Base\<close> and stores its instance,
  the object at 33, in \<^verbatim>\<open>Base.__instance\<close>. The call \<^verbatim>\<open>init(Sub, 'b')\<close> then arrives
  while the initialization of \<^verbatim>\<open>Sub\<close> is unsettled, and it does not receive the pending
  promise: \<^verbatim>\<open>init\<close> reads \<^verbatim>\<open>ctor.__instance\<close> first, the read goes up the prototype
  chain from \<^verbatim>\<open>Sub\<close> to \<^verbatim>\<open>Base\<close>, and the call returns the instance of \<^verbatim>\<open>Base\<close>.
\<close>

theorem inherited_instance_breaks_single_flight:
  "(let s1 = snd (init (FunV (Fn 14)) [StrV ''a''] example);
        s2 = snd (init (FunV (Fn 12)) [] s1)
    in isInitOnly example (Fn 14) = Inr True
       \<and> fst (init (FunV (Fn 14)) [StrV ''a''] example) = Inr (PromV 32)
       \<and> readStatic p_inFlight s1 (Fn 14) = PromV 32
       \<and> fst (init (FunV (Fn 12)) [] s1) = Inr (ObjV 33)
       \<and> proms s2 31 = Some Pending \<and> proms s2 32 = Some Pending
       \<and> p_instance (statics s2 (Fn 14)) = None
       \<and> p_instance (statics s2 (Fn 12)) = Some (ObjV 33)
       \<and> readStatic p_instance s2 (Fn 14) = ObjV 33
       \<and> readStatic p_inFlight s2 (Fn 14) = PromV 32
       \<and> init (FunV (Fn 14)) [StrV ''b''] s2 = (Inr (ObjV 33), s2)
       \<and> trace s2 = [RanInitializer 14 30 [StrV ''a''], RanInitializer 12 33 []])"
  by (simp add: call_defs example_defs)

subsection \<open>C4: the first instance is returned\<close>

text \<open>
  Claim C4 (the code departs from it). \<^verbatim>\<open>Sub\<close> has the policy \<^verbatim>\<open>return-first\<close>, by
  default. After \<^verbatim>\<open>init(Sub, 'a')\<close> and \<^verbatim>\<open>init(Base)\<close> as above, \<^verbatim>\<open>init(Sub, 'b')\<close>
  succeeds and returns the object at 33, the instance of \<^verbatim>\<open>Base\<close>. Then the initializer
  of \<^verbatim>\<open>Sub\<close> finishes and the job queue turns: the reaction stores the object at 30 in
  \<^verbatim>\<open>Sub.__instance\<close>, an own property of \<^verbatim>\<open>Sub\<close> that from now on hides the one of
  \<^verbatim>\<open>Base\<close>. The later call \<^verbatim>\<open>init(Sub, 'c')\<close> returns the object at 30: two calls that
  succeeded on the same construct have returned two objects.
\<close>

theorem inherited_instance_breaks_return_first:
  "(let s1 = snd (init (FunV (Fn 14)) [StrV ''a''] example);
        s2 = snd (init (FunV (Fn 12)) [] s1);
        s3 = tick (finish 31 s2)
    in policyOf example (Fn 14) = StrV ''return-first''
       \<and> fst (init (FunV (Fn 14)) [StrV ''b''] s2) = Inr (ObjV 33)
       \<and> snd (init (FunV (Fn 14)) [StrV ''b''] s2) = s2
       \<and> proms s3 31 = Some (Fulfilled Undefined)
       \<and> proms s3 32 = Some (Fulfilled (ObjV 30))
       \<and> p_instance (statics s3 (Fn 14)) = Some (ObjV 30)
       \<and> p_instance (statics s3 (Fn 12)) = Some (ObjV 33)
       \<and> fst (init (FunV (Fn 14)) [StrV ''c''] s3) = Inr (ObjV 30)
       \<and> getProp s3 30 ''url'' = StrV ''a'')"
proof -
  let ?k = "\<lambda>ps::props. (ps(''url'' \<mapsto> StrV ''a'', ''ready'' \<mapsto> BoolV True), Inr Undefined :: val + val)"
  let ?S1 = "example
     \<lparr>funs := (funs example)(14 := (funs example 14)\<lparr>p_inFlight := Some (PromV 32)\<rparr>),
      objs := (objs example)(30 \<mapsto> \<lparr>protoOf = Some 14, own = Map.empty\<rparr>),
      proms := [31 \<mapsto> Pending, 32 \<mapsto> Pending],
      tasks := [31 \<mapsto> (30, ?k)],
      thens := [(31, Fn 14, 30, 32)],
      nextAddr := 33,
      trace := [RanInitializer 14 30 [StrV ''a'']]\<rparr>"
  let ?S2 = "?S1
     \<lparr>funs := (funs ?S1)(12 := (funs example 12)\<lparr>p_instance := Some (ObjV 33)\<rparr>),
      objs := (objs ?S1)(33 \<mapsto> \<lparr>protoOf = Some 12, own = Map.empty\<rparr>),
      nextAddr := 34,
      trace := [RanInitializer 14 30 [StrV ''a''], RanInitializer 12 33 []]\<rparr>"
  let ?S3 = "?S2
     \<lparr>funs := (funs ?S2)
        (14 := (funs example 14)\<lparr>p_inFlight := Some Null, p_instance := Some (ObjV 30)\<rparr>),
      objs := (objs ?S2)
        (30 \<mapsto> \<lparr>protoOf = Some 14, own = [''url'' \<mapsto> StrV ''a'', ''ready'' \<mapsto> BoolV True]\<rparr>),
      proms := [31 \<mapsto> Fulfilled Undefined, 32 \<mapsto> Fulfilled (ObjV 30)],
      tasks := Map.empty,
      thens := []\<rparr>"
  have 1: "init (FunV (Fn 14)) [StrV ''a''] example = (Inr (PromV 32), ?S1)"
    by (simp add: call_defs example_defs)
  have 2: "init (FunV (Fn 12)) [] ?S1 = (Inr (ObjV 33), ?S2)"
    by (simp add: call_defs example_defs)
  have 3: "init (FunV (Fn 14)) [StrV ''b''] ?S2 = (Inr (ObjV 33), ?S2)"
    by (simp add: call_defs example_defs)
  have 4: "tick (finish 31 ?S2) = ?S3"
    by (simp add: call_defs example_defs)
  have 5: "init (FunV (Fn 14)) [StrV ''c''] ?S3 = (Inr (ObjV 30), ?S3)"
    by (simp add: call_defs example_defs)
  have 6: "policyOf example (Fn 14) = StrV ''return-first''"
    by (simp add: call_defs example_defs)
  have 7: "proms ?S3 31 = Some (Fulfilled Undefined)" "proms ?S3 32 = Some (Fulfilled (ObjV 30))"
    "p_instance (statics ?S3 (Fn 14)) = Some (ObjV 30)"
    "p_instance (statics ?S3 (Fn 12)) = Some (ObjV 33)"
    "getProp ?S3 30 ''url'' = StrV ''a''"
    by (simp_all add: call_defs example_defs)
  show ?thesis
    unfolding Let_def 1 snd_conv 2 3 4 5 fst_conv using 6 7
    by (intro conjI) (assumption | rule refl)+
qed

subsection \<open>C5: the first call allocates and initializes\<close>

text \<open>
  Claim C5, amended. For a class whose prototype has the method \<^verbatim>\<open>initializer\<close>, called
  on the class itself with nothing memoized and nothing in flight, when the allocation
  \<^verbatim>\<open>Reflect.construct(ctor, [])\<close> returns an object on which no own property hides
  that method: the object is new; \<^verbatim>\<open>init\<close> then calls the initializer once, on that
  object and with the arguments of \<^verbatim>\<open>init\<close>, before it returns, and what the
  initializer does to \<^verbatim>\<open>this\<close> is in the object when \<^verbatim>\<open>init\<close> returns. Where neither
  the class nor a class it extends declares a constructor, the allocation runs no
  constructor body and the new object has the declared instance fields with their
  initial values and nothing else. Where the class declares a constructor, the
  allocation runs it, with no arguments; where the class declares none and the class it
  extends declares one, the allocation runs that one, with no arguments, and then adds
  the instance fields of the class.
\<close>

theorem first_init_constructs_then_initializes:
  assumes pr: "prototype (funs s c) = Some p" "p ''initializer'' = Some (FunV g)"
    and cb: "callBody (statics s g) = Some b"
    and ni: "\<not> truthy (readStatic p_instance s (Fn c))"
    and nf: "\<not> truthy (readStatic p_inFlight s (Fn c))"
    and co: "construct (Fn c) [] s = (Inr a, s1)"
    and sh: "thisProps s1 a ''initializer'' = None"
  shows "a = nextAddr s
       \<and> objs s1 = (objs s)(a \<mapsto> \<lparr>protoOf = Some c, own = thisProps s1 a\<rparr>)
       \<and> trace (snd (init (FunV (Fn c)) args s)) = trace s1 @ [RanInitializer c a args]
       \<and> (case b (objs s1) args (thisProps s1 a) of
             Return ps v \<Rightarrow>
               objs (snd (init (FunV (Fn c)) args s)) a = Some \<lparr>protoOf = Some c, own = ps\<rparr>
           | Throw e \<Rightarrow>
               fst (init (FunV (Fn c)) args s) = Inl e
               \<and> objs (snd (init (FunV (Fn c)) args s)) a = objs s1 a
           | Await ps k \<Rightarrow>
               fst (init (FunV (Fn c)) args s) = Inr (PromV (Suc (Suc a)))
               \<and> objs (snd (init (FunV (Fn c)) args s)) a = Some \<lparr>protoOf = Some c, own = ps\<rparr>)
       \<and> ((\<forall>x \<in> set (chain (funs s) c). ctorKind (funs s x) = Synthesized) \<longrightarrow>
            thisProps s1 a = fieldsOf (funs s) (chain (funs s) c) \<and> trace s1 = trace s)
       \<and> (\<forall>k. ctorKind (funs s c) = Declared k \<longrightarrow>
            k (objs s) [] (fieldInits (funs s c)) = Inr (thisProps s1 a)
            \<and> trace s1 = trace s @ [RanConstructor c a])
       \<and> (\<forall>k d. ctorKind (funs s c) = Synthesized \<and> superclass (funs s c) = Some d \<and> d < c
                  \<and> ctorKind (funs s d) = Declared k \<longrightarrow>
            (\<exists>ps. k (objs s) [] (fieldInits (funs s d)) = Inr ps
                   \<and> thisProps s1 a = ps ++ fieldInits (funs s c))
            \<and> trace s1 = trace s @ [RanConstructor d a])"
proof -
  from co obtain ps0 ks where ck: "ctorKind (funs s c) \<noteq> NotConstructor"
    and rc: "runCtors (funs s) (objs s) [] (chain (funs s) c) = (Inr ps0, ks)"
    and a: "a = nextAddr s"
    and s1: "s1 = s\<lparr>objs := (objs s)(nextAddr s \<mapsto> \<lparr>protoOf = Some c, own = ps0\<rparr>),
                      nextAddr := Suc (nextAddr s),
                      trace := trace s @ map (\<lambda>k. RanConstructor k (nextAddr s)) ks\<rparr>"
    by (rule construct_Inr)
  have tp: "thisProps s1 a = ps0" unfolding s1 a by (simp add: thisProps_def)
  have ob: "objs s1 = (objs s)(a \<mapsto> \<lparr>protoOf = Some c, own = ps0\<rparr>)" unfolding s1 a by simp
  have tr: "trace s1 = trace s @ map (\<lambda>k. RanConstructor k a) ks" unfolding s1 a by simp
  from sh have sh0: "ps0 ''initializer'' = None" unfolding tp .
  note f = init_first [OF pr cb ni nf ck rc sh0, of args, folded a]
  have one: "trace (snd (init (FunV (Fn c)) args s)) = trace s1 @ [RanInitializer c a args]"
    using f unfolding tr by simp
  have two: "(case b (objs s1) args (thisProps s1 a) of
             Return ps v \<Rightarrow>
               objs (snd (init (FunV (Fn c)) args s)) a = Some \<lparr>protoOf = Some c, own = ps\<rparr>
           | Throw e \<Rightarrow>
               fst (init (FunV (Fn c)) args s) = Inl e
               \<and> objs (snd (init (FunV (Fn c)) args s)) a = objs s1 a
           | Await ps k \<Rightarrow>
               fst (init (FunV (Fn c)) args s) = Inr (PromV (Suc (Suc a)))
               \<and> objs (snd (init (FunV (Fn c)) args s)) a = Some \<lparr>protoOf = Some c, own = ps\<rparr>)"
    using f unfolding tp ob by (simp split: outcome.splits)
  have three: "thisProps s1 a = fieldsOf (funs s) (chain (funs s) c) \<and> trace s1 = trace s"
    if "\<forall>x \<in> set (chain (funs s) c). ctorKind (funs s x) = Synthesized"
    using runCtors_synthesized [of "chain (funs s) c" "funs s" "objs s" "[]", OF that] rc
    unfolding tp tr by simp
  have four: "k (objs s) [] (fieldInits (funs s c)) = Inr (thisProps s1 a)
            \<and> trace s1 = trace s @ [RanConstructor c a]"
    if "ctorKind (funs s c) = Declared k" for k
    using runCtors_declared [of "funs s" c k "objs s" "[]", OF that] rc unfolding tp tr by simp
  have five: "(\<exists>ps. k (objs s) [] (fieldInits (funs s d)) = Inr ps
                   \<and> thisProps s1 a = ps ++ fieldInits (funs s c))
            \<and> trace s1 = trace s @ [RanConstructor d a]"
    if "ctorKind (funs s c) = Synthesized \<and> superclass (funs s c) = Some d \<and> d < c
          \<and> ctorKind (funs s d) = Declared k" for k d
  proof -
    from that have h: "ctorKind (funs s c) = Synthesized" "superclass (funs s c) = Some d"
      "d < c" "ctorKind (funs s d) = Declared k" by simp_all
    from runCtors_inherited [of "funs s" c d k "objs s" "[]", OF h] rc show ?thesis
      unfolding tp tr by (auto split: sum.splits)
  qed
  from a ob one two three four five show ?thesis unfolding tp by blast
qed

text \<open>
  \<^verbatim>\<open>init(App, { port: 3000 })\<close> on the fresh realm of the examples: no class on the chain
  of \<^verbatim>\<open>App\<close> declares a constructor. \<^verbatim>\<open>init(Legacy, { port: 3000 })\<close>: the constructor
  of \<^verbatim>\<open>Legacy\<close> runs without an argument, so that \<^verbatim>\<open>tag\<close> is \<^verbatim>\<open>undefined\<close>. And
  \<^verbatim>\<open>init(Child, { port: 3000 })\<close>: \<^verbatim>\<open>Child\<close> declares no constructor, and the
  constructor of \<^verbatim>\<open>Legacy\<close> runs.
\<close>

theorem first_init_constructs_then_initializes_witness:
  "\<not> truthy (readStatic p_instance example (Fn 0))
   \<and> \<not> truthy (readStatic p_inFlight example (Fn 0))
   \<and> fst (construct (Fn 0) [] example) = Inr 30
   \<and> chain (funs example) 0 = [0] \<and> ctorKind (funs example 0) = Synthesized
   \<and> thisProps (snd (construct (Fn 0) [] example)) 30 = Map.empty
   \<and> trace (snd (init (FunV (Fn 0)) [ObjV 20] example)) = [RanInitializer 0 30 [ObjV 20]]
   \<and> objs (snd (init (FunV (Fn 0)) [ObjV 20] example)) 30
       = Some \<lparr>protoOf = Some 0, own = [''port'' \<mapsto> NumV 3000]\<rparr>
   \<and> ctorKind (funs example 9) = Declared Legacy_constructor
   \<and> fst (construct (Fn 9) [] example) = Inr 30
   \<and> Legacy_constructor (objs example) [] Map.empty
       = Inr (thisProps (snd (construct (Fn 9) [] example)) 30)
   \<and> thisProps (snd (construct (Fn 9) [] example)) 30
       = [''built'' \<mapsto> BoolV True, ''tag'' \<mapsto> Undefined]
   \<and> trace (snd (init (FunV (Fn 9)) [ObjV 20] example))
       = [RanConstructor 9 30, RanInitializer 9 30 [ObjV 20]]
   \<and> ctorKind (funs example 16) = Synthesized \<and> superclass (funs example 16) = Some 9
   \<and> fst (construct (Fn 16) [] example) = Inr 30
   \<and> trace (snd (init (FunV (Fn 16)) [ObjV 20] example))
       = [RanConstructor 9 30, RanInitializer 16 30 [ObjV 20]]"
proof -
  have na: "nextAddr example = 30" "trace example = []" by (simp_all add: example_defs)
  \<comment> \<open>\<^verbatim>\<open>App\<close>\<close>
  let ?s1 = "snd (construct (Fn 0) [] example)"
  have a1: "prototype (funs example 0) = Some [''initializer'' \<mapsto> FunV (Fn 1)]"
    by (simp add: example_defs)
  have a2: "[''initializer'' \<mapsto> FunV (Fn 1)] ''initializer'' = Some (FunV (Fn 1))" by simp
  have a3: "callBody (statics example (Fn 1)) = Some App_initializer"
    by (simp add: statics_def example_defs)
  have a4: "\<not> truthy (readStatic p_instance example (Fn 0))"
    by (simp add: call_defs example_defs)
  have a5: "\<not> truthy (readStatic p_inFlight example (Fn 0))"
    by (simp add: call_defs example_defs)
  have a6f: "fst (construct (Fn 0) [] example) = Inr 30"
    by (simp add: call_defs example_defs)
  then have a6: "construct (Fn 0) [] example = (Inr 30, ?s1)" by (simp add: prod_eq_iff)
  have a7e: "thisProps ?s1 30 = Map.empty" by (simp add: call_defs example_defs)
  then have a7: "thisProps ?s1 30 ''initializer'' = None" by simp
  have a8c: "chain (funs example) 0 = [0]" and a8k: "ctorKind (funs example 0) = Synthesized"
    by (simp_all add: call_defs example_defs)
  then have a8: "\<forall>x \<in> set (chain (funs example) 0). ctorKind (funs example x) = Synthesized"
    by simp
  have a9: "App_initializer (objs ?s1) [ObjV 20] (thisProps ?s1 30)
              = Return [''port'' \<mapsto> NumV 3000] Undefined"
    unfolding a7e by (simp add: call_defs example_defs)
  note ta = first_init_constructs_then_initializes [OF a1 a2 a3 a4 a5 a6 a7, of "[ObjV 20]"]
  from ta a8 have "trace ?s1 = trace example" by blast
  moreover from ta
  have "trace (snd (init (FunV (Fn 0)) [ObjV 20] example)) = trace ?s1 @ [RanInitializer 0 30 [ObjV 20]]"
    by blast
  ultimately have r1: "trace (snd (init (FunV (Fn 0)) [ObjV 20] example)) = [RanInitializer 0 30 [ObjV 20]]"
    by (simp add: na)
  from ta have "(case App_initializer (objs ?s1) [ObjV 20] (thisProps ?s1 30) of
             Return ps v \<Rightarrow>
               objs (snd (init (FunV (Fn 0)) [ObjV 20] example)) 30 = Some \<lparr>protoOf = Some 0, own = ps\<rparr>
           | Throw e \<Rightarrow>
               fst (init (FunV (Fn 0)) [ObjV 20] example) = Inl e
               \<and> objs (snd (init (FunV (Fn 0)) [ObjV 20] example)) 30 = objs ?s1 30
           | Await ps k \<Rightarrow>
               fst (init (FunV (Fn 0)) [ObjV 20] example) = Inr (PromV (Suc (Suc 30)))
               \<and> objs (snd (init (FunV (Fn 0)) [ObjV 20] example)) 30 = Some \<lparr>protoOf = Some 0, own = ps\<rparr>)"
    by blast
  then have r2: "objs (snd (init (FunV (Fn 0)) [ObjV 20] example)) 30
       = Some \<lparr>protoOf = Some 0, own = [''port'' \<mapsto> NumV 3000]\<rparr>"
    unfolding a9 by simp
  \<comment> \<open>\<^verbatim>\<open>Legacy\<close>\<close>
  let ?t1 = "snd (construct (Fn 9) [] example)"
  have b1: "prototype (funs example 9) = Some [''initializer'' \<mapsto> FunV (Fn 5)]"
    by (simp add: example_defs)
  have b2: "[''initializer'' \<mapsto> FunV (Fn 5)] ''initializer'' = Some (FunV (Fn 5))" by simp
  have b3: "callBody (statics example (Fn 5)) = Some Settings_initializer"
    by (simp add: statics_def example_defs)
  have b4: "\<not> truthy (readStatic p_instance example (Fn 9))"
    by (simp add: call_defs example_defs)
  have b5: "\<not> truthy (readStatic p_inFlight example (Fn 9))"
    by (simp add: call_defs example_defs)
  have b6f: "fst (construct (Fn 9) [] example) = Inr 30"
    by (simp add: call_defs example_defs)
  then have b6: "construct (Fn 9) [] example = (Inr 30, ?t1)" by (simp add: prod_eq_iff)
  have b7e: "thisProps ?t1 30 = [''built'' \<mapsto> BoolV True, ''tag'' \<mapsto> Undefined]"
    by (simp add: call_defs example_defs)
  then have b7: "thisProps ?t1 30 ''initializer'' = None" by simp
  have b8: "ctorKind (funs example 9) = Declared Legacy_constructor" by (simp add: example_defs)
  have b9: "fieldInits (funs example 9) = Map.empty" by (simp add: example_defs)
  note tb = first_init_constructs_then_initializes [OF b1 b2 b3 b4 b5 b6 b7, of "[ObjV 20]"]
  from tb b8 have "Legacy_constructor (objs example) [] (fieldInits (funs example 9)) = Inr (thisProps ?t1 30)
      \<and> trace ?t1 = trace example @ [RanConstructor 9 30]"
    by blast
  then have r3: "Legacy_constructor (objs example) [] Map.empty = Inr (thisProps ?t1 30)"
    and tt: "trace ?t1 = [RanConstructor 9 30]"
    unfolding b9 by (simp_all add: na)
  from tb
  have "trace (snd (init (FunV (Fn 9)) [ObjV 20] example)) = trace ?t1 @ [RanInitializer 9 30 [ObjV 20]]"
    by blast
  then have r4: "trace (snd (init (FunV (Fn 9)) [ObjV 20] example))
       = [RanConstructor 9 30, RanInitializer 9 30 [ObjV 20]]"
    unfolding tt by simp
  \<comment> \<open>\<^verbatim>\<open>Child\<close>\<close>
  let ?u1 = "snd (construct (Fn 16) [] example)"
  have c1: "prototype (funs example 16) = Some [''initializer'' \<mapsto> FunV (Fn 17)]"
    by (simp add: example_defs)
  have c2: "[''initializer'' \<mapsto> FunV (Fn 17)] ''initializer'' = Some (FunV (Fn 17))" by simp
  have c3: "callBody (statics example (Fn 17)) = Some Settings_initializer"
    by (simp add: statics_def example_defs)
  have c4: "\<not> truthy (readStatic p_instance example (Fn 16))"
    by (simp add: call_defs example_defs)
  have c5: "\<not> truthy (readStatic p_inFlight example (Fn 16))"
    by (simp add: call_defs example_defs)
  have c6f: "fst (construct (Fn 16) [] example) = Inr 30"
    by (simp add: call_defs example_defs)
  then have c6: "construct (Fn 16) [] example = (Inr 30, ?u1)" by (simp add: prod_eq_iff)
  have c7: "thisProps ?u1 30 ''initializer'' = None" by (simp add: call_defs example_defs)
  have c8: "ctorKind (funs example 16) = Synthesized \<and> superclass (funs example 16) = Some 9
              \<and> (9::nat) < 16 \<and> ctorKind (funs example 9) = Declared Legacy_constructor"
    by (simp add: example_defs)
  note tc = first_init_constructs_then_initializes [OF c1 c2 c3 c4 c5 c6 c7, of "[ObjV 20]"]
  from tc c8 have "trace ?u1 = trace example @ [RanConstructor 9 30]" by blast
  moreover from tc
  have "trace (snd (init (FunV (Fn 16)) [ObjV 20] example)) = trace ?u1 @ [RanInitializer 16 30 [ObjV 20]]"
    by blast
  ultimately have r5: "trace (snd (init (FunV (Fn 16)) [ObjV 20] example))
       = [RanConstructor 9 30, RanInitializer 16 30 [ObjV 20]]"
    by (simp add: na)
  from c8 have c8': "ctorKind (funs example 16) = Synthesized" "superclass (funs example 16) = Some 9"
    by simp_all
  from a4 a5 a6f a8c a8k a7e r1 r2 b8 b6f r3 b7e r4 c8' c6f r5 show ?thesis by (intro conjI)
qed

text \<open>
  As the claim is worded (no user constructor runs) it fails on a class that declares a
  constructor next to its initializer: \<^verbatim>\<open>Reflect.construct(ctor, [])\<close> runs the
  constructor of \<^verbatim>\<open>Legacy\<close>, which sets \<^verbatim>\<open>built\<close>, before the initializer runs. It
  fails as well on \<^verbatim>\<open>Child\<close>, which declares no constructor and extends \<^verbatim>\<open>Legacy\<close>.
\<close>

theorem declared_constructor_counterexample:
  "isInitOnly example (Fn 9) = Inr True
   \<and> \<not> truthy (readStatic p_instance example (Fn 9))
   \<and> \<not> truthy (readStatic p_inFlight example (Fn 9))
   \<and> ctorKind (funs example 9) = Declared Legacy_constructor
   \<and> fst (init (FunV (Fn 9)) [ObjV 20] example) = Inr (ObjV 30)
   \<and> trace (snd (init (FunV (Fn 9)) [ObjV 20] example))
       = [RanConstructor 9 30, RanInitializer 9 30 [ObjV 20]]
   \<and> getProp (snd (init (FunV (Fn 9)) [ObjV 20] example)) 30 ''built'' = BoolV True
   \<and> isInitOnly example (Fn 16) = Inr True
   \<and> \<not> truthy (readStatic p_instance example (Fn 16))
   \<and> \<not> truthy (readStatic p_inFlight example (Fn 16))
   \<and> ctorKind (funs example 16) = Synthesized
   \<and> fst (init (FunV (Fn 16)) [ObjV 20] example) = Inr (ObjV 30)
   \<and> trace (snd (init (FunV (Fn 16)) [ObjV 20] example))
       = [RanConstructor 9 30, RanInitializer 16 30 [ObjV 20]]
   \<and> getProp (snd (init (FunV (Fn 16)) [ObjV 20] example)) 30 ''built'' = BoolV True"
  by (simp add: call_defs example_defs)

subsection \<open>C6: registration\<close>

text \<open>
  Claim C6, amended. \<^verbatim>\<open>markInitOnly\<close> rejects no class: on a function with a prototype,
  not marked before, it returns the function and makes it init-only, whether or not the
  class declares a constructor (which it keeps); when the prototype has no own
  \<^verbatim>\<open>initializer\<close> it logs a warning and succeeds all the same. The one error that
  \<^verbatim>\<open>markInitOnly\<close> throws itself is the \<^verbatim>\<open>TypeError\<close> for a target that is no function.
\<close>

theorem markInitOnly_never_rejects_a_class:
  assumes "prototype (statics s f) = Some p" "\<not> instanceAccessor (statics s f)"
  shows "fst (markInitOnly (FunV f) s) = Inr (FunV f)
       \<and> isInitOnly (snd (markInitOnly (FunV f) s)) f = Inr True
       \<and> ctorKind (statics (snd (markInitOnly (FunV f) s)) f) = ctorKind (statics s f)
       \<and> trace (snd (markInitOnly (FunV f) s))
           = (if p ''initializer'' = None
              then trace s @ [Warned (noInitializerWarning (fname (statics s f)))]
              else trace s)
       \<and> (typeof C \<noteq> ''function'' \<longrightarrow>
            markInitOnly C s
              = (Inl (TypeErrorV ''markInitOnly target must be a class/constructor''), s))"
proof -
  have "markInitOnly C s = (Inl (TypeErrorV ''markInitOnly target must be a class/constructor''), s)"
    if "typeof C \<noteq> ''function''"
    using that by (cases C) (simp_all add: markInitOnly_def)
  moreover have "p_isInitOnly (statics (snd (markInitOnly (FunV f) s)) f) = Some (BoolV True)"
    unfolding markInitOnly_ok [OF assms] snd_conv
    by (simp add: statics_def setStatics_def warn_def)
  from readStatic_own [where sel = p_isInitOnly, OF this]
  have "isInitOnly (snd (markInitOnly (FunV f) s)) f = Inr True"
    by (simp add: isInitOnly_def)
  ultimately show ?thesis
    unfolding markInitOnly_ok [OF assms] fst_conv snd_conv
    by (simp add: statics_def setStatics_def warn_def)
qed

text \<open>
  \<^verbatim>\<open>Legacy\<close> declares a constructor and an initializer; marking it succeeds silently.
\<close>

theorem markInitOnly_never_rejects_a_class_witness:
  "prototype (statics example (Fn 9)) = Some [''initializer'' \<mapsto> FunV (Fn 5)]
   \<and> \<not> instanceAccessor (statics example (Fn 9))
   \<and> ctorKind (statics example (Fn 9)) = Declared Legacy_constructor
   \<and> fst (markInitOnly (FunV (Fn 9)) example) = Inr (FunV (Fn 9))
   \<and> isInitOnly (snd (markInitOnly (FunV (Fn 9)) example)) (Fn 9) = Inr True
   \<and> trace (snd (markInitOnly (FunV (Fn 9)) example)) = []
   \<and> typeof (ObjV 20) \<noteq> ''function''
   \<and> markInitOnly (ObjV 20) example
       = (Inl (TypeErrorV ''markInitOnly target must be a class/constructor''), example)"
proof -
  have h1: "prototype (statics example (Fn 9)) = Some [''initializer'' \<mapsto> FunV (Fn 5)]"
    by (simp add: call_defs example_defs)
  have h2: "\<not> instanceAccessor (statics example (Fn 9))"
    by (simp add: call_defs example_defs)
  have h3: "ctorKind (statics example (Fn 9)) = Declared Legacy_constructor"
    by (simp add: call_defs example_defs)
  have h4: "trace example = []" by (simp add: example_defs)
  from markInitOnly_never_rejects_a_class [OF h1 h2, of "ObjV 20"] h1 h2 h3 h4
  show ?thesis by simp
qed

text \<open>
  As the claim is worded (registration fails when a constructor is declared, and when
  the initializer is absent) it fails twice: \<^verbatim>\<open>markInitOnly(Legacy)\<close> succeeds, and so does
  \<^verbatim>\<open>markInitOnly(User)\<close> for \<^verbatim>\<open>class User {}\<close>, after a warning.
\<close>

theorem markInitOnly_counterexample:
  "ctorKind (statics example (Fn 9)) = Declared Legacy_constructor
   \<and> fst (markInitOnly (FunV (Fn 9)) example) = Inr (FunV (Fn 9))
   \<and> prototype (statics example (Fn 6)) = Some Map.empty
   \<and> fst (markInitOnly (FunV (Fn 6)) example) = Inr (FunV (Fn 6))
   \<and> trace (snd (markInitOnly (FunV (Fn 6)) example)) = [Warned (noInitializerWarning ''User'')]"
  by (simp add: call_defs example_defs)

subsection \<open>C7: misuse\<close>




subsection \<open>C8: the instance accessor\<close>




subsection \<open>C9: synchronous initializers\<close>



subsection \<open>C10: init on the guarded wrapper\<close>




end
